theory Spec2Isabelle
  imports Main "HOL-Library.Word"
begin

unbundle bit_operations_syntax

section \<open>The machine state\<close>

text \<open>
  \<open>chip8.c\<close> works on one \<open>chip8\<close> structure through a pointer. Its fields are the
  ones the functions of \<open>chip8.c\<close> read and write. \<open>Byte\<close> is an unsigned 8-bit
  integer and \<open>DoubleByte\<close> an unsigned 16-bit integer.
\<close>

type_synonym Byte = "8 word"
type_synonym DoubleByte = "16 word"

text \<open>
  Modelled from the spec: the header \<open>chip8.h\<close> with the declaration of the \<open>chip8\<close>
  structure is missing. The field names are those used in \<open>chip8.c\<close>; the widths follow
  the data model of the specification (8-bit memory cells, registers and timers, 16-bit
  program counter, index register and stack entries), and the arrays have the sizes of
  the constants of \<open>chip8.c\<close> below (the register array has \<open>NUM_OF_REGISTERS\<close> = 15
  entries). An array is a list; \<open>wellformed\<close> says that every list has the declared size.
\<close>

record chip8 =
  programCounter :: DoubleByte
  opcode :: DoubleByte
  indexRegister :: DoubleByte
  stackPointer :: DoubleByte
  drawFlag :: bool
  pixels :: "Byte list"
  stack :: "DoubleByte list"
  registers :: "Byte list"
  carryRegister :: Byte
  keys :: "bool list"
  memory :: "Byte list"
  soundTimer :: Byte
  delayTimer :: Byte
  soundFlag :: bool

definition PROGRAM_MEMORY_ADDRESS :: DoubleByte where
  "PROGRAM_MEMORY_ADDRESS = 0x200"

definition MEMORY_SIZE :: nat where
  "MEMORY_SIZE = 4096"

definition NUM_OF_PIXELS :: nat where
  "NUM_OF_PIXELS = 64 * 32"

definition NUM_OF_REGISTERS :: nat where
  "NUM_OF_REGISTERS = 15"

definition NUM_OF_STACK_LEVELS :: nat where
  "NUM_OF_STACK_LEVELS = 16"

definition NUM_OF_KEYS :: nat where
  "NUM_OF_KEYS = 16"

definition SCREEN_WIDTH :: nat where
  "SCREEN_WIDTH = 64"

definition SCREEN_HEIGHT :: nat where
  "SCREEN_HEIGHT = 32"

definition FONTSET_SIZE :: nat where
  "FONTSET_SIZE = 0x50"

definition fontset :: "Byte list" where
  "fontset =
   [0xF0, 0x90, 0x90, 0x90, 0xF0,
    0x20, 0x60, 0x20, 0x20, 0x70,
    0xF0, 0x10, 0xF0, 0x80, 0xF0,
    0xF0, 0x10, 0xF0, 0x10, 0xF0,
    0x90, 0x90, 0xF0, 0x10, 0x10,
    0xF0, 0x80, 0xF0, 0x10, 0xF0,
    0xF0, 0x80, 0xF0, 0x90, 0xF0,
    0xF0, 0x10, 0x20, 0x40, 0x40,
    0xF0, 0x90, 0xF0, 0x90, 0xF0,
    0xF0, 0x90, 0xF0, 0x10, 0xF0,
    0xF0, 0x90, 0xF0, 0x90, 0x90,
    0xE0, 0x90, 0xE0, 0x90, 0xE0,
    0xF0, 0x80, 0x80, 0x80, 0xF0,
    0xE0, 0x90, 0x90, 0x90, 0xE0,
    0xF0, 0x80, 0xF0, 0x80, 0xF0,
    0xF0, 0x80, 0xF0, 0x80, 0x80]"

definition wellformed :: "chip8 \<Rightarrow> bool" where
  "wellformed c \<longleftrightarrow>
     length (pixels c) = NUM_OF_PIXELS \<and>
     length (stack c) = NUM_OF_STACK_LEVELS \<and>
     length (registers c) = NUM_OF_REGISTERS \<and>
     length (keys c) = NUM_OF_KEYS \<and>
     length (memory c) = MEMORY_SIZE"

section \<open>initChip8\<close>

text \<open>
  The loop \<open>for (i = 0; i < n; i++) a[i] = v\<close>. Every such loop of \<open>initChip8\<close> runs
  up to the declared size of its array, so on a well-formed state no index is out of
  range.
\<close>

definition fill_array :: "nat \<Rightarrow> 'a \<Rightarrow> 'a list \<Rightarrow> 'a list" where
  "fill_array n v a = fold (\<lambda>i b. b[i := v]) [0..<n] a"

text \<open>The loop \<open>for (byteAddr = 0; byteAddr < FONTSET_SIZE; byteAddr++)
  memory[byteAddr] = fontset[byteAddr]\<close>.\<close>

definition load_fontset :: "Byte list \<Rightarrow> Byte list" where
  "load_fontset m = fold (\<lambda>byteAddr b. b[byteAddr := fontset ! byteAddr]) [0..<FONTSET_SIZE] m"

text \<open>
  \<open>initChip8\<close> assigns every field but \<open>soundFlag\<close>. The call \<open>srand(time(NULL))\<close>
  seeds the generator of the C library, which is no part of the structure.
\<close>

definition initChip8 :: "chip8 \<Rightarrow> chip8" where
  "initChip8 c =
     c\<lparr>programCounter := PROGRAM_MEMORY_ADDRESS,
       opcode := 0,
       indexRegister := 0,
       stackPointer := 0,
       drawFlag := False,
       pixels := fill_array NUM_OF_PIXELS 0 (pixels c),
       stack := fill_array NUM_OF_STACK_LEVELS 0 (stack c),
       registers := fill_array NUM_OF_REGISTERS 0 (registers c),
       carryRegister := 0,
       keys := fill_array NUM_OF_KEYS False (keys c),
       memory := load_fontset (fill_array MEMORY_SIZE 0 (memory c)),
       soundTimer := 0,
       delayTimer := 0\<rparr>"

section \<open>updateChip8Timers\<close>

definition updateChip8Timers :: "chip8 \<Rightarrow> chip8" where
  "updateChip8Timers c =
     (let c1 = (if delayTimer c > 0 then c\<lparr>delayTimer := delayTimer c - 1\<rparr> else c)
      in if soundTimer c1 > 0
         then (let c2 = (if soundTimer c1 = 1 then c1\<lparr>soundFlag := True\<rparr> else c1)
               in c2\<lparr>soundTimer := soundTimer c2 - 1\<rparr>)
         else c1)"

text \<open>\<open>ticks n c\<close> is the state after \<open>n\<close> calls of \<open>updateChip8Timers\<close>.\<close>

fun ticks :: "nat \<Rightarrow> chip8 \<Rightarrow> chip8" where
  "ticks 0 c = c"
| "ticks (Suc n) c = ticks n (updateChip8Timers c)"

section \<open>loadChip8\<close>

text \<open>
  \<open>loadChip8\<close> reads the file of the program and copies its bytes to the memory from
  the address 0x200 on. The bytes read from the file are the argument \<open>rom\<close> here; the
  result is \<open>None\<close> where the C function returns \<open>false\<close> because the program does not
  fit (the failures of \<open>fopen\<close> and \<open>malloc\<close> belong to the host and are left out).
\<close>

definition loadChip8 :: "Byte list \<Rightarrow> chip8 \<Rightarrow> chip8 option" where
  "loadChip8 rom c =
     (if 4096 - 0x200 < length rom then None
      else Some (c\<lparr>memory :=
        fold (\<lambda>addr m. m[addr := rom ! (addr - 0x200)]) [0x200..<0x200 + length rom]
          (memory c)\<rparr>))"

section \<open>emulateChip8Cycle\<close>

text \<open>
  A cycle ends in one of three ways: it returns, it prints \<open>Unknown opcode\<close> and calls
  \<open>exit(5)\<close>, or it reads or writes an array outside its declared bounds, which C leaves
  undefined. The last two are the values of \<open>fault\<close>; after a fault there is no state.
\<close>

datatype fault = UnknownOpcode DoubleByte | OutOfBounds

text \<open>The fields of an instruction word: \<open>(opcode & 0x0F00) >> 8\<close> and
  \<open>(opcode & 0x00F0) >> 4\<close>.\<close>

definition opX :: "DoubleByte \<Rightarrow> nat" where
  "opX w = unat (drop_bit 8 (w AND 0x0F00))"

definition opY :: "DoubleByte \<Rightarrow> nat" where
  "opY w = unat (drop_bit 4 (w AND 0x00F0))"

text \<open>
  \<open>in_bounds ok c\<close> is the state \<open>c\<close> when every array index used to compute it lies
  inside its array (\<open>ok\<close>), and the fault \<open>OutOfBounds\<close> otherwise; the state is only
  looked at when \<open>ok\<close> holds.
\<close>

definition in_bounds :: "bool \<Rightarrow> chip8 \<Rightarrow> fault + chip8" where
  "in_bounds ok c = (if ok then Inr c else Inl OutOfBounds)"

text \<open>\<open>(memory[programCounter] << 8) | memory[programCounter + 1]\<close>; the sum
  \<open>programCounter + 1\<close> is computed in \<open>int\<close> and does not wrap.\<close>

definition fetch :: "chip8 \<Rightarrow> fault + DoubleByte" where
  "fetch c =
     (let pc = unat (programCounter c)
      in if pc + 1 < length (memory c)
         then Inr (push_bit 8 (ucast (memory c ! pc)) OR ucast (memory c ! (pc + 1)))
         else Inl OutOfBounds)"

text \<open>Family 0: 00E0 clears the screen, 00EE returns from a subroutine.\<close>

definition exec_0 :: "chip8 \<Rightarrow> fault + chip8" where
  "exec_0 c =
     (let w = opcode c AND 0x0FFF
      in if w = 0x00E0
         then Inr (c\<lparr>pixels := fill_array NUM_OF_PIXELS 0 (pixels c),
                     programCounter := programCounter c + 2,
                     drawFlag := True\<rparr>)
         else if w = 0x00EE
         then (let sp = stackPointer c - 1
               in if unat sp < length (stack c)
                  then Inr (c\<lparr>stackPointer := sp, programCounter := stack c ! unat sp + 2\<rparr>)
                  else Inl OutOfBounds)
         else Inl (UnknownOpcode (opcode c)))"

text \<open>
  Family 8, selected by the last nibble. The comparisons of 8XY4, 8XY5 and 8XY7 are
  made in \<open>int\<close>, after the integer promotion of the bytes; 8XY4 adds first and compares
  afterwards, with the register already updated.
\<close>

definition exec_8 :: "chip8 \<Rightarrow> fault + chip8" where
  "exec_8 c =
     (let w = opcode c; x = opX w; y = opY w; regs = registers c; n = w AND 0x000F;
          okX = (x < length regs); okXY = (x < length regs \<and> y < length regs)
      in if n = 0x0
         then in_bounds okXY
                (c\<lparr>registers := regs[x := regs ! y],
                   programCounter := programCounter c + 2\<rparr>)
         else if n = 0x1
         then in_bounds okXY
                (c\<lparr>registers := regs[x := regs ! x OR regs ! y],
                   programCounter := programCounter c + 2\<rparr>)
         else if n = 0x2
         then in_bounds okXY
                (c\<lparr>registers := regs[x := regs ! x AND regs ! y],
                   programCounter := programCounter c + 2\<rparr>)
         else if n = 0x3
         then in_bounds okXY
                (c\<lparr>registers := regs[x := regs ! x XOR regs ! y],
                   programCounter := programCounter c + 2\<rparr>)
         else if n = 0x4
         then (let regs' = regs[x := regs ! x + regs ! y]
               in in_bounds okXY
                    (c\<lparr>carryRegister :=
                         (if unat (regs' ! y) > 0xFF - unat (regs' ! x) then 1 else 0),
                       registers := regs',
                       programCounter := programCounter c + 2\<rparr>))
         else if n = 0x5
         then in_bounds okXY
                (c\<lparr>carryRegister := (if regs ! y > regs ! x then 0 else 1),
                   registers := regs[x := regs ! x - regs ! y],
                   programCounter := programCounter c + 2\<rparr>)
         else if n = 0x6
         then in_bounds okX
                (c\<lparr>carryRegister := regs ! x AND 1,
                   registers := regs[x := drop_bit 1 (regs ! x)],
                   programCounter := programCounter c + 2\<rparr>)
         else if n = 0x7
         then in_bounds okXY
                (c\<lparr>carryRegister := (if regs ! x > regs ! y then 0 else 1),
                   registers := regs[x := regs ! y - regs ! x],
                   programCounter := programCounter c + 2\<rparr>)
         else if n = 0xE
         then in_bounds okX
                (c\<lparr>carryRegister := drop_bit 7 (regs ! x),
                   registers := regs[x := push_bit 1 (regs ! x)],
                   programCounter := programCounter c + 2\<rparr>)
         else Inl (UnknownOpcode w))"

text \<open>
  DXYN. The inner loop over the columns stops (\<open>break\<close>) as soon as
  \<open>xpos + column > SCREEN_WIDTH || ypos + row > SCREEN_HEIGHT\<close>; otherwise a set bit of
  the row flips \<open>pixels[xpos + column + (ypos + row) * 64]\<close> and raises the carry register
  when that pixel was 1. The state of the loops is the pixel array and the carry register.
\<close>

fun draw_columns ::
  "nat \<Rightarrow> nat \<Rightarrow> nat \<Rightarrow> DoubleByte \<Rightarrow> nat list \<Rightarrow> Byte list \<times> Byte \<Rightarrow> fault + Byte list \<times> Byte"
where
  "draw_columns xpos ypos row spriteRowData [] (px, cf) = Inr (px, cf)"
| "draw_columns xpos ypos row spriteRowData (column # columns) (px, cf) =
     (if xpos + column > SCREEN_WIDTH \<or> ypos + row > SCREEN_HEIGHT then Inr (px, cf)
      else if spriteRowData AND drop_bit column 0x80 \<noteq> 0
      then (let i = xpos + column + (ypos + row) * 64
            in if i < length px
               then draw_columns xpos ypos row spriteRowData columns
                      (px[i := px ! i XOR 1], if px ! i = 1 then 1 else cf)
               else Inl OutOfBounds)
      else draw_columns xpos ypos row spriteRowData columns (px, cf))"

fun draw_rows ::
  "nat \<Rightarrow> nat \<Rightarrow> nat \<Rightarrow> Byte list \<Rightarrow> nat list \<Rightarrow> Byte list \<times> Byte \<Rightarrow> fault + Byte list \<times> Byte"
where
  "draw_rows xpos ypos idx mem [] st = Inr st"
| "draw_rows xpos ypos idx mem (row # rows) st =
     (if idx + row < length mem
      then (case draw_columns xpos ypos row (ucast (mem ! (idx + row))) [0..<8] st of
              Inl e \<Rightarrow> Inl e
            | Inr st' \<Rightarrow> draw_rows xpos ypos idx mem rows st')
      else Inl OutOfBounds)"

definition exec_D :: "chip8 \<Rightarrow> fault + chip8" where
  "exec_D c =
     (let w = opcode c; x = opX w; y = opY w; regs = registers c
      in if x < length regs \<and> y < length regs
         then (let xpos = unat (regs ! x); ypos = unat (regs ! y);
                   height = unat (w AND 0x000F)
               in case draw_rows xpos ypos (unat (indexRegister c)) (memory c) [0..<height]
                         (pixels c, 0) of
                    Inl e \<Rightarrow> Inl e
                  | Inr (px, cf) \<Rightarrow>
                      Inr (c\<lparr>carryRegister := cf, pixels := px, drawFlag := True,
                             programCounter := programCounter c + 2\<rparr>))
         else Inl OutOfBounds)"

text \<open>Family E. Its \<open>switch\<close> has no \<open>default\<close>: any other low byte does nothing.\<close>

definition exec_E :: "chip8 \<Rightarrow> fault + chip8" where
  "exec_E c =
     (let w = opcode c; x = opX w; regs = registers c; n = w AND 0xFF;
          ok = (x < length regs \<and> unat (regs ! x) < length (keys c))
      in if n = 0x9E
         then in_bounds ok
                (c\<lparr>programCounter := programCounter c +
                     (if keys c ! unat (regs ! x) then 4 else 2)\<rparr>)
         else if n = 0xA1
         then in_bounds ok
                (c\<lparr>programCounter := programCounter c +
                     (if \<not> keys c ! unat (regs ! x) then 4 else 2)\<rparr>)
         else Inr c)"

text \<open>
  FX0A: the loop over the 16 keys. Every pressed key adds 2 to the program counter,
  sets \<open>keyPressed\<close> and stores its index in \<open>registers[X]\<close>; the loop has no \<open>break\<close>.
\<close>

fun wait_key ::
  "nat \<Rightarrow> bool list \<Rightarrow> nat list \<Rightarrow> DoubleByte \<times> Byte list \<times> bool \<Rightarrow>
   fault + DoubleByte \<times> Byte list \<times> bool"
where
  "wait_key x ks [] st = Inr st"
| "wait_key x ks (key # rest) (pc, regs, keyPressed) =
     (if key < length ks
      then (if ks ! key
            then (if x < length regs
                  then wait_key x ks rest (pc + 2, regs[x := of_nat key], True)
                  else Inl OutOfBounds)
            else wait_key x ks rest (pc, regs, keyPressed))
      else Inl OutOfBounds)"

text \<open>FX55: \<open>for (r = 0; r <= X; r++) memory[indexRegister + r] = registers[r]\<close>.\<close>

fun store_registers :: "nat list \<Rightarrow> nat \<Rightarrow> Byte list \<Rightarrow> Byte list \<Rightarrow> fault + Byte list" where
  "store_registers [] idx regs mem = Inr mem"
| "store_registers (r # rs) idx regs mem =
     (if r < length regs \<and> idx + r < length mem
      then store_registers rs idx regs (mem[idx + r := regs ! r])
      else Inl OutOfBounds)"

text \<open>FX65: \<open>for (r = 0; r <= X; r++) registers[r] = memory[indexRegister + r]\<close>.\<close>

fun load_registers :: "nat list \<Rightarrow> nat \<Rightarrow> Byte list \<Rightarrow> Byte list \<Rightarrow> fault + Byte list" where
  "load_registers [] idx mem regs = Inr regs"
| "load_registers (r # rs) idx mem regs =
     (if r < length regs \<and> idx + r < length mem
      then load_registers rs idx mem (regs[r := mem ! (idx + r)])
      else Inl OutOfBounds)"

text \<open>Family F, selected by the low byte.\<close>

definition exec_F :: "chip8 \<Rightarrow> fault + chip8" where
  "exec_F c =
     (let w = opcode c; x = opX w; regs = registers c; n = w AND 0xFF;
          idx = unat (indexRegister c); okX = (x < length regs)
      in if n = 0x07
         then in_bounds okX
                (c\<lparr>registers := regs[x := delayTimer c],
                   programCounter := programCounter c + 2\<rparr>)
         else if n = 0x0A
         then (case wait_key x (keys c) [0..<NUM_OF_KEYS] (programCounter c, regs, False) of
                 Inl e \<Rightarrow> Inl e
               | Inr (pc, regs', keyPressed) \<Rightarrow>
                   if \<not> keyPressed then Inr c
                   else Inr (c\<lparr>programCounter := pc, registers := regs'\<rparr>))
         else if n = 0x15
         then in_bounds okX
                (c\<lparr>delayTimer := regs ! x, programCounter := programCounter c + 2\<rparr>)
         else if n = 0x18
         then in_bounds okX
                (c\<lparr>soundTimer := regs ! x, programCounter := programCounter c + 2\<rparr>)
         else if n = 0x1E
         then in_bounds okX
                (c\<lparr>indexRegister := indexRegister c + ucast (regs ! x),
                   programCounter := programCounter c + 2\<rparr>)
         else if n = 0x29
         then in_bounds okX
                (c\<lparr>indexRegister := ucast (regs ! x) * 0x5,
                   programCounter := programCounter c + 2\<rparr>)
         else if n = 0x33
         then in_bounds (okX \<and> idx + 2 < length (memory c))
                (c\<lparr>memory := (memory c)
                     [idx := regs ! x div 100,
                      idx + 1 := (regs ! x div 10) mod 10,
                      idx + 2 := regs ! x mod 10],
                   programCounter := programCounter c + 2\<rparr>)
         else if n = 0x55
         then (case store_registers [0..<Suc x] idx regs (memory c) of
                 Inl e \<Rightarrow> Inl e
               | Inr mem \<Rightarrow>
                   Inr (c\<lparr>memory := mem, programCounter := programCounter c + 2\<rparr>))
         else if n = 0x65
         then (case load_registers [0..<Suc x] idx (memory c) regs of
                 Inl e \<Rightarrow> Inl e
               | Inr regs' \<Rightarrow>
                   Inr (c\<lparr>registers := regs', programCounter := programCounter c + 2\<rparr>))
         else Inl (UnknownOpcode w))"

text \<open>
  The outer \<open>switch (opcode & 0xF000)\<close>, on the state that already holds the fetched
  word in \<open>opcode\<close>. \<open>rnd\<close> is the value that \<open>rand()\<close> returns in CXNN. In BNNN the
  right-hand side \<open>opcode & 0x0FFF + registers[0]\<close> is, by the precedence of C,
  \<open>opcode & (0x0FFF + registers[0])\<close>.
\<close>

definition execute :: "32 word \<Rightarrow> chip8 \<Rightarrow> fault + chip8" where
  "execute rnd c =
     (let w = opcode c; family = w AND 0xF000; x = opX w; y = opY w; regs = registers c;
          okX = (x < length regs); okXY = (x < length regs \<and> y < length regs)
      in if family = 0x0000 then exec_0 c
         else if family = 0x1000
         then Inr (c\<lparr>programCounter := w AND 0x0FFF\<rparr>)
         else if family = 0x2000
         then in_bounds (unat (stackPointer c) < length (stack c))
                (c\<lparr>stack := (stack c)[unat (stackPointer c) := programCounter c],
                   stackPointer := stackPointer c + 1,
                   programCounter := w AND 0x0FFF\<rparr>)
         else if family = 0x3000
         then in_bounds okX
                (c\<lparr>programCounter := programCounter c +
                     (if ucast (regs ! x) = w AND 0x00FF then 4 else 2)\<rparr>)
         else if family = 0x4000
         then in_bounds okX
                (c\<lparr>programCounter := programCounter c +
                     (if ucast (regs ! x) \<noteq> w AND 0x00FF then 4 else 2)\<rparr>)
         else if family = 0x5000
         then in_bounds okXY
                (c\<lparr>programCounter := programCounter c +
                     (if regs ! x = regs ! y then 4 else 2)\<rparr>)
         else if family = 0x6000
         then in_bounds okX
                (c\<lparr>registers := regs[x := ucast (w AND 0x00FF)],
                   programCounter := programCounter c + 2\<rparr>)
         else if family = 0x7000
         then in_bounds okX
                (c\<lparr>registers := regs[x := regs ! x + ucast (w AND 0x00FF)],
                   programCounter := programCounter c + 2\<rparr>)
         else if family = 0x8000 then exec_8 c
         else if family = 0x9000
         then in_bounds okXY
                (c\<lparr>programCounter := programCounter c +
                     (if regs ! x \<noteq> regs ! y then 4 else 2)\<rparr>)
         else if family = 0xA000
         then Inr (c\<lparr>indexRegister := w AND 0x0FFF,
                     programCounter := programCounter c + 2\<rparr>)
         else if family = 0xB000
         then in_bounds (0 < length regs)
                (c\<lparr>programCounter := w AND (0x0FFF + ucast (regs ! 0))\<rparr>)
         else if family = 0xC000
         then in_bounds okX
                (c\<lparr>registers := regs[x := ucast (rnd AND ucast (w AND 0xFF))],
                   programCounter := programCounter c + 2\<rparr>)
         else if family = 0xD000 then exec_D c
         else if family = 0xE000 then exec_E c
         else if family = 0xF000 then exec_F c
         else Inr c)"

definition emulateChip8Cycle :: "32 word \<Rightarrow> chip8 \<Rightarrow> fault + chip8" where
  "emulateChip8Cycle rnd c =
     (case fetch c of
        Inl e \<Rightarrow> Inl e
      | Inr w \<Rightarrow> execute rnd (c\<lparr>opcode := w\<rparr>))"

section \<open>Concrete machines\<close>

text \<open>
  \<open>blank\<close> is a structure with arrays of the declared sizes and nothing in them;
  \<open>machine rom\<close> is the state after \<open>initChip8\<close> and \<open>loadChip8\<close> of the bytes \<open>rom\<close>,
  as a host sets it up before the first cycle.
\<close>

definition blank :: chip8 where
  "blank =
     \<lparr>programCounter = 0, opcode = 0, indexRegister = 0, stackPointer = 0,
      drawFlag = False, pixels = replicate 2048 0, stack = replicate 16 0,
      registers = replicate 15 0, carryRegister = 0, keys = replicate 16 False,
      memory = replicate 4096 0, soundTimer = 0, delayTimer = 0, soundFlag = False\<rparr>"

text \<open>\<open>used\<close> is a machine that has run: no field is zero and the sound flag is raised.\<close>

definition used :: chip8 where
  "used =
     \<lparr>programCounter = 0x3A4, opcode = 0x8014, indexRegister = 0x2F0, stackPointer = 3,
      drawFlag = True, pixels = replicate 2048 1, stack = replicate 16 0x246,
      registers = replicate 15 0x7B, carryRegister = 1, keys = replicate 16 True,
      memory = replicate 4096 0xC3, soundTimer = 9, delayTimer = 17, soundFlag = True\<rparr>"

definition machine :: "Byte list \<Rightarrow> chip8" where
  "machine rom =
     (case loadChip8 rom (initChip8 blank) of
        Some c \<Rightarrow> c
      | None \<Rightarrow> initChip8 blank)"

section \<open>Facts about the initialisation loops\<close>

lemma fold_fill_prefix:
  "n \<le> length a \<Longrightarrow> fold (\<lambda>i b. b[i := v]) [0..<n] a = replicate n v @ drop n a"
proof (induction n)
  case 0
  then show ?case by simp
next
  case (Suc n)
  then have "fold (\<lambda>i b. b[i := v]) [0..<Suc n] a = (replicate n v @ drop n a)[n := v]"
    by simp
  also have "\<dots> = replicate n v @ (drop n a)[0 := v]"
    by (simp add: list_update_append)
  also have "(drop n a)[0 := v] = v # drop (Suc n) a"
    using Suc.prems by (simp add: Cons_nth_drop_Suc [symmetric])
  finally show ?case
    by (simp add: replicate_app_Cons_same)
qed

lemma fill_array_full: "length a = n \<Longrightarrow> fill_array n v a = replicate n v"
  by (simp add: fill_array_def fold_fill_prefix)

lemma fold_copy_prefix:
  "n \<le> length f \<Longrightarrow> n \<le> length a \<Longrightarrow>
   fold (\<lambda>i b. b[i := f ! i]) [0..<n] a = take n f @ drop n a"
proof (induction n)
  case 0
  then show ?case by simp
next
  case (Suc n)
  then have "fold (\<lambda>i b. b[i := f ! i]) [0..<Suc n] a = (take n f @ drop n a)[n := f ! n]"
    by simp
  also have "\<dots> = take n f @ (drop n a)[0 := f ! n]"
    using Suc.prems by (simp add: list_update_append)
  also have "(drop n a)[0 := f ! n] = f ! n # drop (Suc n) a"
    using Suc.prems by (simp add: Cons_nth_drop_Suc [symmetric])
  finally show ?case
    using Suc.prems by (simp add: take_Suc_conv_app_nth)
qed

lemma length_fontset: "length fontset = 80"
  by (simp add: fontset_def)

lemma load_fontset_zero:
  "load_fontset (replicate 4096 0) = fontset @ replicate 4016 0"
  by (simp add: load_fontset_def FONTSET_SIZE_def fold_copy_prefix length_fontset)

lemma wellformed_lengths:
  assumes "wellformed c"
  shows "length (pixels c) = 2048" "length (stack c) = 16" "length (registers c) = 15"
    "length (keys c) = 16" "length (memory c) = 4096"
  using assms
  by (simp_all add: wellformed_def NUM_OF_PIXELS_def NUM_OF_STACK_LEVELS_def
      NUM_OF_REGISTERS_def NUM_OF_KEYS_def MEMORY_SIZE_def)

lemma initChip8_fields:
  assumes "wellformed c"
  shows "initChip8 c =
     c\<lparr>programCounter := 0x200, opcode := 0, indexRegister := 0, stackPointer := 0,
       drawFlag := False, pixels := replicate 2048 0, stack := replicate 16 0,
       registers := replicate 15 0, carryRegister := 0, keys := replicate 16 False,
       memory := fontset @ replicate 4016 0, soundTimer := 0, delayTimer := 0\<rparr>"
  by (simp add: initChip8_def PROGRAM_MEMORY_ADDRESS_def NUM_OF_PIXELS_def
      NUM_OF_STACK_LEVELS_def NUM_OF_REGISTERS_def NUM_OF_KEYS_def MEMORY_SIZE_def
      fill_array_full wellformed_lengths [OF assms] load_fontset_zero)

section \<open>Facts about the timers\<close>

lemma tick_fields:
  "updateChip8Timers c =
     c\<lparr>delayTimer := (if delayTimer c > 0 then delayTimer c - 1 else delayTimer c),
       soundTimer := (if soundTimer c > 0 then soundTimer c - 1 else soundTimer c),
       soundFlag := (soundFlag c \<or> soundTimer c = 1)\<rparr>"
  by (simp add: updateChip8Timers_def Let_def)

lemma unat_countdown:
  fixes t :: Byte
  shows "unat (if t > 0 then t - 1 else t) = unat t - 1"
proof (cases "t = 0")
  case True
  then show ?thesis by simp
next
  case False
  then show ?thesis by (simp add: unat_minus_one word_greater_zero_iff)
qed

lemma ticks_delayTimer: "unat (delayTimer (ticks n c)) = unat (delayTimer c) - n"
proof (induction n arbitrary: c)
  case 0
  then show ?case by simp
next
  case (Suc n)
  have "unat (delayTimer (updateChip8Timers c)) = unat (delayTimer c) - 1"
    by (simp only: tick_fields unat_countdown [symmetric]) simp
  with Suc show ?case by simp
qed

lemma ticks_soundTimer: "unat (soundTimer (ticks n c)) = unat (soundTimer c) - n"
proof (induction n arbitrary: c)
  case 0
  then show ?case by simp
next
  case (Suc n)
  have "unat (soundTimer (updateChip8Timers c)) = unat (soundTimer c) - 1"
    by (simp only: tick_fields unat_countdown [symmetric]) simp
  with Suc show ?case by simp
qed

lemma tick_raises:
  "soundFlag (updateChip8Timers (s\<lparr>soundFlag := False\<rparr>)) \<longleftrightarrow> soundTimer s = 1"
  by (simp add: tick_fields)

lemma sound_is_one: "soundTimer (ticks k c) = 1 \<longleftrightarrow> unat (soundTimer c) = Suc k"
proof -
  have "soundTimer (ticks k c) = 1 \<longleftrightarrow> unat (soundTimer (ticks k c)) = 1"
    by (metis unat_1 word_unat_eq_iff)
  then show ?thesis by (auto simp: ticks_soundTimer)
qed

section \<open>Facts about the concrete machines\<close>

lemma wellformed_blank: "wellformed blank"
  by (simp add: wellformed_def blank_def NUM_OF_PIXELS_def NUM_OF_STACK_LEVELS_def
        NUM_OF_REGISTERS_def NUM_OF_KEYS_def MEMORY_SIZE_def)

lemma initChip8_blank:
  "initChip8 blank = blank\<lparr>programCounter := 0x200, memory := fontset @ replicate 4016 0\<rparr>"
  using initChip8_fields [OF wellformed_blank] by (simp add: blank_def)

lemma machine_2:
  "machine [a, b] =
     blank\<lparr>programCounter := 0x200,
           memory := (fontset @ replicate 4016 0)[0x200 := a, 0x201 := b]\<rparr>"
  by (simp add: machine_def loadChip8_def initChip8_blank)

lemma machine_3:
  "machine [a, b, d] =
     blank\<lparr>programCounter := 0x200,
           memory := (fontset @ replicate 4016 0)[0x200 := a, 0x201 := b, 0x202 := d]\<rparr>"
  by (simp add: machine_def loadChip8_def initChip8_blank)

lemma machine_4:
  "machine [a, b, d, e] =
     blank\<lparr>programCounter := 0x200,
           memory := (fontset @ replicate 4016 0)
             [0x200 := a, 0x201 := b, 0x202 := d, 0x203 := e]\<rparr>"
  by (simp add: machine_def loadChip8_def initChip8_blank)

lemmas eval_simps = emulateChip8Cycle_def fetch_def blank_def length_fontset nth_append
  execute_def opX_def opY_def in_bounds_def

lemma fetch_machine_2: "fetch (machine [a, b]) = Inr (push_bit 8 (ucast a) OR ucast b)"
  by (simp add: machine_2 fetch_def blank_def length_fontset nth_append)

lemma wellformed_machine_2: "wellformed (machine [a, b])"
  by (simp add: machine_2 wellformed_def blank_def length_fontset NUM_OF_PIXELS_def
      NUM_OF_STACK_LEVELS_def NUM_OF_REGISTERS_def NUM_OF_KEYS_def MEMORY_SIZE_def)

lemma wellformed_update_registers:
  "wellformed c \<Longrightarrow> length regs = 15 \<Longrightarrow> wellformed (c\<lparr>registers := regs\<rparr>)"
  by (simp add: wellformed_def NUM_OF_REGISTERS_def)

lemma upt_0_8: "[0..<8] = [0, 1, 2, 3, 4, 5, 6, 7]"
  by code_simp

lemma upt_0_16: "[0..<16] = [0, 1, 2, 3, 4, 5, 6, 7, 8, 9, 10, 11, 12, 13, 14, 15]"
  by code_simp

lemma store_registers_fault:
  "r \<in> set rs \<Longrightarrow> \<not> r < length regs \<Longrightarrow> store_registers rs idx regs mem = Inl OutOfBounds"
  by (induction rs arbitrary: mem) auto

lemma load_registers_fault:
  "r \<in> set rs \<Longrightarrow> \<not> r < length regs \<Longrightarrow> load_registers rs idx mem regs = Inl OutOfBounds"
  by (induction rs arbitrary: regs) auto

lemma upt_0_3: "[0..<3] = [0, 1, 2]"
  by code_simp

section \<open>Facts about a cycle\<close>

lemma emulate_fetched:
  "fetch c = Inr w \<Longrightarrow> emulateChip8Cycle rnd c = execute rnd (c\<lparr>opcode := w\<rparr>)"
  by (simp add: emulateChip8Cycle_def)

lemma fetch_pc_bound:
  assumes "wellformed c" and "fetch c = Inr w"
  shows "unat (programCounter c) + 1 < 4096"
  using assms(2) wellformed_lengths(5) [OF assms(1)]
  by (simp add: fetch_def Let_def split: if_splits)

lemma pc_advance:
  fixes pc :: DoubleByte
  assumes "unat pc + 1 < 4096"
  shows "unat (pc + 2) = unat pc + 2" and "unat (pc + 4) = unat pc + 4"
proof -
  have "unat pc + unat (2 :: DoubleByte) < 2 ^ LENGTH(16)"
    using assms by simp
  then show "unat (pc + 2) = unat pc + 2"
    by (simp only: unat_add_lem) simp
  have "unat pc + unat (4 :: DoubleByte) < 2 ^ LENGTH(16)"
    using assms by simp
  then show "unat (pc + 4) = unat pc + 4"
    by (simp only: unat_add_lem) simp
qed

lemma store_registers_fold:
  "\<forall>r\<in>set rs. r < length regs \<and> idx + r < length mem \<Longrightarrow>
   store_registers rs idx regs mem = Inr (fold (\<lambda>r m. m[idx + r := regs ! r]) rs mem)"
  by (induction rs arbitrary: mem) auto

lemma stored_length:
  "length (fold (\<lambda>r m. m[idx + r := regs ! r]) rs mem) = length mem"
  by (induction rs arbitrary: mem) auto

lemma stored_nth:
  "r \<in> set rs \<Longrightarrow> idx + r < length mem \<Longrightarrow>
   fold (\<lambda>r m. m[idx + r := regs ! r]) rs mem ! (idx + r) = regs ! r"
proof (induction rs rule: rev_induct)
  case Nil
  then show ?case by simp
next
  case (snoc a rs)
  then show ?case
    by (cases "a = r") (simp_all add: stored_length nth_list_update)
qed

lemma load_registers_fold:
  "\<forall>r\<in>set rs. r < length regs \<and> idx + r < length mem \<Longrightarrow>
   load_registers rs idx mem regs = Inr (fold (\<lambda>r g. g[r := mem ! (idx + r)]) rs regs)"
  by (induction rs arbitrary: regs) auto

lemma loaded_length:
  "length (fold (\<lambda>r g. g[r := mem ! (idx + r)]) rs regs) = length regs"
  by (induction rs arbitrary: regs) auto

lemma loaded_nth:
  "r \<in> set rs \<Longrightarrow> r < length regs \<Longrightarrow>
   fold (\<lambda>r g. g[r := mem ! (idx + r)]) rs regs ! r = mem ! (idx + r)"
proof (induction rs rule: rev_induct)
  case Nil
  then show ?case by simp
next
  case (snoc a rs)
  then show ?case
    by (cases "a = r") (simp_all add: loaded_length nth_list_update)
qed

lemma exec_FX55:
  assumes "wellformed c" and "fetch c = Inr w" and "w AND 0xF000 = 0xF000" and "w AND 0xFF = 0x55"
    and "opX w \<le> 14" and "unat (indexRegister c) + opX w < 4096"
  shows "emulateChip8Cycle rnd c =
     Inr (c\<lparr>opcode := w,
            memory := fold (\<lambda>r m. m[unat (indexRegister c) + r := registers c ! r])
                        [0..<Suc (opX w)] (memory c),
            programCounter := programCounter c + 2\<rparr>)"
proof -
  note len = wellformed_lengths [OF assms(1)]
  have "\<forall>r\<in>set [0..<Suc (opX w)].
          r < length (registers c) \<and> unat (indexRegister c) + r < length (memory c)"
    using assms(5,6) by (auto simp: len)
  then have "store_registers [0..<Suc (opX w)] (unat (indexRegister c)) (registers c) (memory c) =
     Inr (fold (\<lambda>r m. m[unat (indexRegister c) + r := registers c ! r])
            [0..<Suc (opX w)] (memory c))"
    by (rule store_registers_fold)
  then show ?thesis
    using assms(3,4)
    by (simp add: emulate_fetched [OF assms(2)] execute_def exec_F_def Let_def del: upt_Suc)
qed

lemma exec_FX65:
  assumes "wellformed c" and "fetch c = Inr w" and "w AND 0xF000 = 0xF000" and "w AND 0xFF = 0x65"
    and "opX w \<le> 14" and "unat (indexRegister c) + opX w < 4096"
  shows "emulateChip8Cycle rnd c =
     Inr (c\<lparr>opcode := w,
            registers := fold (\<lambda>r g. g[r := memory c ! (unat (indexRegister c) + r)])
                        [0..<Suc (opX w)] (registers c),
            programCounter := programCounter c + 2\<rparr>)"
proof -
  note len = wellformed_lengths [OF assms(1)]
  have "\<forall>r\<in>set [0..<Suc (opX w)].
          r < length (registers c) \<and> unat (indexRegister c) + r < length (memory c)"
    using assms(5,6) by (auto simp: len)
  then have "load_registers [0..<Suc (opX w)] (unat (indexRegister c)) (memory c) (registers c) =
     Inr (fold (\<lambda>r g. g[r := memory c ! (unat (indexRegister c) + r)])
            [0..<Suc (opX w)] (registers c))"
    by (rule load_registers_fold)
  then show ?thesis
    using assms(3,4)
    by (simp add: emulate_fetched [OF assms(2)] execute_def exec_F_def Let_def del: upt_Suc)
qed

section \<open>Cycles on the registers 0 to 14\<close>

text \<open>
  FX55 followed by FX65: for X from 0 to 14 and an index register with index + X inside
  the memory, the cycle of FX55 returns, and a cycle of FX65 with the same X, run on the
  memory it left with the same index register and a zeroed register array, returns
  with the registers 0 to X holding the values they had before FX55.
\<close>

lemma store_load_in_range:
  assumes "wellformed c" and "fetch c = Inr w"
    and "w AND 0xF000 = 0xF000" and "w AND 0xFF = 0x55"
    and "opX w \<le> 14" and "unat (indexRegister c) + opX w < 4096"
  shows "\<exists>c1. emulateChip8Cycle rnd c = Inr c1 \<and>
    (\<forall>c2 w2 rnd2.
       wellformed c2 \<and> memory c2 = memory c1 \<and> indexRegister c2 = indexRegister c \<and>
       registers c2 = replicate 15 0 \<and> fetch c2 = Inr w2 \<and>
       w2 AND 0xF000 = 0xF000 \<and> w2 AND 0xFF = 0x65 \<and> opX w2 = opX w \<longrightarrow>
       (\<exists>c3. emulateChip8Cycle rnd2 c2 = Inr c3 \<and>
             take (Suc (opX w)) (registers c3) = take (Suc (opX w)) (registers c)))"
proof -
  let ?idx = "unat (indexRegister c)"
  let ?mem = "fold (\<lambda>r m. m[?idx + r := registers c ! r]) [0..<Suc (opX w)] (memory c)"
  let ?c1 = "c\<lparr>opcode := w, memory := ?mem, programCounter := programCounter c + 2\<rparr>"
  note len = wellformed_lengths [OF assms(1)]
  have step1: "emulateChip8Cycle rnd c = Inr ?c1"
    using assms by (rule exec_FX55)
  have reload: "\<exists>c3. emulateChip8Cycle rnd2 c2 = Inr c3 \<and>
             take (Suc (opX w)) (registers c3) = take (Suc (opX w)) (registers c)"
    if h: "wellformed c2" "memory c2 = memory ?c1" "indexRegister c2 = indexRegister c"
       "registers c2 = replicate 15 0" "fetch c2 = Inr w2"
       "w2 AND 0xF000 = 0xF000" "w2 AND 0xFF = 0x65" "opX w2 = opX w"
    for c2 w2 rnd2
  proof -
    let ?regs = "fold (\<lambda>r g. g[r := ?mem ! (?idx + r)]) [0..<Suc (opX w)] (replicate 15 0)"
    have "emulateChip8Cycle rnd2 c2 =
       Inr (c2\<lparr>opcode := w2,
            registers := fold (\<lambda>r g. g[r := memory c2 ! (unat (indexRegister c2) + r)])
                        [0..<Suc (opX w2)] (registers c2),
            programCounter := programCounter c2 + 2\<rparr>)"
      using h(1,5,6,7) assms(5,6) h(3,8) by (intro exec_FX65) simp_all
    then have step2: "emulateChip8Cycle rnd2 c2 =
       Inr (c2\<lparr>opcode := w2, registers := ?regs, programCounter := programCounter c2 + 2\<rparr>)"
      using h(2,3,4,8) by simp
    have "?regs ! r = registers c ! r" if "r < Suc (opX w)" for r
    proof -
      from that assms(5) have r15: "r < 15" by simp
      from that have mem: "r \<in> set [0..<Suc (opX w)]" by (simp del: upt_Suc)
      from that assms(6) have "?idx + r < length (memory c)" by (simp add: len)
      then have "?mem ! (?idx + r) = registers c ! r"
        using mem by (rule stored_nth [rotated])
      moreover have "?regs ! r = ?mem ! (?idx + r)"
        using mem r15 by (intro loaded_nth) simp_all
      ultimately show ?thesis by simp
    qed
    then have "take (Suc (opX w)) ?regs = take (Suc (opX w)) (registers c)"
      using assms(5) by (intro nth_take_lemma) (simp_all add: loaded_length len)
    with step2 show ?thesis by simp
  qed
  show ?thesis
    using step1 reload by (intro exI [of _ ?c1]) blast
qed


lemma store_load_in_range_example:
  "\<exists>c1 c3.
     emulateChip8Cycle 0
       (machine [0xF2, 0x55, 0xF2, 0x65]
          \<lparr>registers := (replicate 15 0)[0 := 0x11, 2 := 0x33], indexRegister := 0x300\<rparr>) = Inr c1 \<and>
     emulateChip8Cycle 0 (c1\<lparr>registers := replicate 15 0\<rparr>) = Inr c3 \<and>
     take 3 (registers c3) = take 3 ((replicate 15 0)[0 := 0x11, 2 := 0x33])"
proof -
  let ?M = "machine [0xF2, 0x55, 0xF2, 0x65]
          \<lparr>registers := (replicate 15 0)[0 := 0x11, 2 := 0x33], indexRegister := 0x300\<rparr>"
  have wf: "wellformed ?M"
    by (simp add: machine_4 wellformed_def blank_def length_fontset NUM_OF_PIXELS_def
        NUM_OF_STACK_LEVELS_def NUM_OF_REGISTERS_def NUM_OF_KEYS_def MEMORY_SIZE_def)
  have fe: "fetch ?M = Inr 0xF255"
    by (simp add: machine_4 fetch_def blank_def length_fontset nth_append)
  have x: "opX 0xF255 = 2"
    by (simp add: opX_def)
  from store_load_in_range [OF wf fe, of 0]
  obtain c1 where s1: "emulateChip8Cycle 0 ?M = Inr c1"
    and rt: "\<And>c2 w2 rnd2. wellformed c2 \<Longrightarrow> memory c2 = memory c1 \<Longrightarrow>
       indexRegister c2 = indexRegister ?M \<Longrightarrow> registers c2 = replicate 15 0 \<Longrightarrow>
       fetch c2 = Inr w2 \<Longrightarrow> w2 AND 0xF000 = 0xF000 \<Longrightarrow> w2 AND 0xFF = 0x65 \<Longrightarrow>
       opX w2 = 2 \<Longrightarrow>
       \<exists>c3. emulateChip8Cycle rnd2 c2 = Inr c3 \<and>
             take 3 (registers c3) = take 3 (registers ?M)"
    by (auto simp add: x)
  have "emulateChip8Cycle 0 ?M =
     Inr (?M\<lparr>opcode := 0xF255,
            memory := fold (\<lambda>r m. m[unat (indexRegister ?M) + r := registers ?M ! r])
                        [0..<Suc (opX 0xF255)] (memory ?M),
            programCounter := programCounter ?M + 2\<rparr>)"
    using wf fe by (intro exec_FX55) (simp_all add: x)
  with s1 have c1: "c1 = ?M\<lparr>opcode := 0xF255,
            memory := fold (\<lambda>r m. m[unat (indexRegister ?M) + r := registers ?M ! r])
                        [0..<3] (memory ?M),
            programCounter := programCounter ?M + 2\<rparr>"
    by (simp add: x del: upt_Suc)
  let ?c2 = "c1\<lparr>registers := replicate 15 0\<rparr>"
  have wf2: "wellformed ?c2"
    using wf by (simp add: c1 wellformed_def stored_length NUM_OF_REGISTERS_def)
  have fe2: "fetch ?c2 = Inr 0xF265"
    by (simp add: c1 upt_0_3 machine_4 fetch_def blank_def length_fontset nth_append)
  have "\<exists>c3. emulateChip8Cycle 0 ?c2 = Inr c3 \<and>
             take 3 (registers c3) = take 3 (registers ?M)"
    using wf2 _ _ _ fe2 by (rule rt) (simp_all add: c1 opX_def)
  with s1 show ?thesis by auto
qed

text \<open>
  3XNN, 4XNN, 5XY0 and 9XY0 on registers of the array: the program counter moves by 4
  when the condition holds and by 2 otherwise, without wrapping, and the state returned
  differs from the one given in the program counter and in \<open>opcode\<close>, which holds the
  fetched word.
\<close>

lemma skip_in_range:
  assumes "wellformed c" and "fetch c = Inr w" and "opX w < 15"
  shows
   "(w AND 0xF000 = 0x3000 \<longrightarrow>
       emulateChip8Cycle rnd c =
         Inr (c\<lparr>opcode := w, programCounter := programCounter c +
               (if ucast (registers c ! opX w) = w AND 0x00FF then 4 else 2)\<rparr>)) \<and>
    (w AND 0xF000 = 0x4000 \<longrightarrow>
       emulateChip8Cycle rnd c =
         Inr (c\<lparr>opcode := w, programCounter := programCounter c +
               (if ucast (registers c ! opX w) \<noteq> w AND 0x00FF then 4 else 2)\<rparr>)) \<and>
    (w AND 0xF000 = 0x5000 \<and> opY w < 15 \<longrightarrow>
       emulateChip8Cycle rnd c =
         Inr (c\<lparr>opcode := w, programCounter := programCounter c +
               (if registers c ! opX w = registers c ! opY w then 4 else 2)\<rparr>)) \<and>
    (w AND 0xF000 = 0x9000 \<and> opY w < 15 \<longrightarrow>
       emulateChip8Cycle rnd c =
         Inr (c\<lparr>opcode := w, programCounter := programCounter c +
               (if registers c ! opX w \<noteq> registers c ! opY w then 4 else 2)\<rparr>)) \<and>
    unat (programCounter c + 4) = unat (programCounter c) + 4 \<and>
    unat (programCounter c + 2) = unat (programCounter c) + 2"
proof -
  note len = wellformed_lengths [OF assms(1)]
  note run = emulate_fetched [OF assms(2)]
  have "w AND 0xF000 = 0x3000 \<Longrightarrow>
       emulateChip8Cycle rnd c =
         Inr (c\<lparr>opcode := w, programCounter := programCounter c +
               (if ucast (registers c ! opX w) = w AND 0x00FF then 4 else 2)\<rparr>)"
    using assms(3) by (simp add: run execute_def in_bounds_def Let_def len)
  moreover have "w AND 0xF000 = 0x4000 \<Longrightarrow>
       emulateChip8Cycle rnd c =
         Inr (c\<lparr>opcode := w, programCounter := programCounter c +
               (if ucast (registers c ! opX w) \<noteq> w AND 0x00FF then 4 else 2)\<rparr>)"
    using assms(3) by (simp add: run execute_def in_bounds_def Let_def len)
  moreover have "w AND 0xF000 = 0x5000 \<Longrightarrow> opY w < 15 \<Longrightarrow>
       emulateChip8Cycle rnd c =
         Inr (c\<lparr>opcode := w, programCounter := programCounter c +
               (if registers c ! opX w = registers c ! opY w then 4 else 2)\<rparr>)"
    using assms(3) by (simp add: run execute_def in_bounds_def Let_def len)
  moreover have "w AND 0xF000 = 0x9000 \<Longrightarrow> opY w < 15 \<Longrightarrow>
       emulateChip8Cycle rnd c =
         Inr (c\<lparr>opcode := w, programCounter := programCounter c +
               (if registers c ! opX w \<noteq> registers c ! opY w then 4 else 2)\<rparr>)"
    using assms(3) by (simp add: run execute_def in_bounds_def Let_def len)
  moreover note pc_advance [OF fetch_pc_bound [OF assms(1,2)]]
  ultimately show ?thesis by blast
qed

lemma skip_in_range_example:
  "emulateChip8Cycle 0 (machine [0x32, 0x07]\<lparr>registers := (replicate 15 0)[2 := 7, 3 := 7]\<rparr>) =
     Inr (machine [0x32, 0x07]
       \<lparr>registers := (replicate 15 0)[2 := 7, 3 := 7], opcode := 0x3207, programCounter := 0x204\<rparr>) \<and>
   emulateChip8Cycle 0 (machine [0x42, 0x07]\<lparr>registers := (replicate 15 0)[2 := 7, 3 := 7]\<rparr>) =
     Inr (machine [0x42, 0x07]
       \<lparr>registers := (replicate 15 0)[2 := 7, 3 := 7], opcode := 0x4207, programCounter := 0x202\<rparr>) \<and>
   emulateChip8Cycle 0 (machine [0x52, 0x30]\<lparr>registers := (replicate 15 0)[2 := 7, 3 := 7]\<rparr>) =
     Inr (machine [0x52, 0x30]
       \<lparr>registers := (replicate 15 0)[2 := 7, 3 := 7], opcode := 0x5230, programCounter := 0x204\<rparr>) \<and>
   emulateChip8Cycle 0 (machine [0x92, 0x30]\<lparr>registers := (replicate 15 0)[2 := 7, 3 := 7]\<rparr>) =
     Inr (machine [0x92, 0x30]
       \<lparr>registers := (replicate 15 0)[2 := 7, 3 := 7], opcode := 0x9230, programCounter := 0x202\<rparr>)"
proof -
  let ?regs = "(replicate 15 0)[2 := 7, 3 := 7] :: Byte list"
  have wf: "wellformed (machine [a, b]\<lparr>registers := ?regs\<rparr>)" for a b
    by (simp add: wellformed_machine_2 wellformed_update_registers)
  have fe: "fetch (machine [a, b]\<lparr>registers := ?regs\<rparr>) = Inr (push_bit 8 (ucast a) OR ucast b)"
    for a b
    by (simp add: machine_2 fetch_def blank_def length_fontset nth_append)
  have pc: "programCounter (machine [a, b]) = 0x200" for a b
    by (simp add: machine_2)
  show ?thesis
    using skip_in_range [OF wf, of "0x32" "0x07" "0x3207" 0]
      skip_in_range [OF wf, of "0x42" "0x07" "0x4207" 0]
      skip_in_range [OF wf, of "0x52" "0x30" "0x5230" 0]
      skip_in_range [OF wf, of "0x92" "0x30" "0x9230" 0]
    by (simp add: fe opX_def opY_def pc)
qed

section \<open>Claims about initChip8\<close>

text \<open>
  C8: on a machine whose arrays have their declared sizes, \<open>initChip8\<close> sets the program
  counter to 0x200, the instruction word, the index register and the stack pointer to 0,
  clears the display buffer, the stack, the general registers, the flag register and the
  keypad, leaves the memory zero except for the 80 bytes of the glyph table, copied as
  they are to the addresses 0x000 to 0x04F, and sets both timers to 0.
\<close>

theorem initChip8_reset:
  assumes "wellformed c"
  shows "initChip8 c =
     c\<lparr>programCounter := 0x200,
       opcode := 0,
       indexRegister := 0,
       stackPointer := 0,
       drawFlag := False,
       pixels := replicate 2048 0,
       stack := replicate 16 0,
       registers := replicate 15 0,
       carryRegister := 0,
       keys := replicate 16 False,
       memory := fontset @ replicate 4016 0,
       soundTimer := 0,
       delayTimer := 0\<rparr>"
  using assms by (rule initChip8_fields)

text \<open>The same on \<open>used\<close>, where every field is non-zero and the sound flag raised.\<close>

theorem initChip8_reset_witness:
  "wellformed used \<and>
   initChip8 used =
     \<lparr>programCounter = 0x200, opcode = 0, indexRegister = 0, stackPointer = 0,
      drawFlag = False, pixels = replicate 2048 0, stack = replicate 16 0,
      registers = replicate 15 0, carryRegister = 0, keys = replicate 16 False,
      memory = fontset @ replicate 4016 0, soundTimer = 0, delayTimer = 0, soundFlag = True\<rparr>"
proof -
  have wf: "wellformed used"
    by (simp add: used_def wellformed_def NUM_OF_PIXELS_def NUM_OF_STACK_LEVELS_def
        NUM_OF_REGISTERS_def NUM_OF_KEYS_def MEMORY_SIZE_def)
  show ?thesis
    using wf initChip8_reset [OF wf] by (simp add: used_def)
qed

text \<open>
  C10: \<open>initChip8\<close> never writes the sound flag: the flag after the call is the flag
  before it, so a flag raised before a second initialisation is still raised after it.
\<close>

theorem initChip8_keeps_soundFlag:
  "soundFlag (initChip8 c) = soundFlag c"
  by (simp add: initChip8_def)

section \<open>Claims about updateChip8Timers\<close>

text \<open>
  C6, as the claim states it, fails on a sound timer that starts at 0: no call ever
  raises the sound flag then. Here: sound timer 0, flag down, and the flag is still down
  after one call.
\<close>

theorem sound_flag_silent_counterexample:
  "soundTimer blank = 0 \<and> soundFlag blank = False \<and> soundFlag (ticks 1 blank) = False"
  by (simp add: blank_def updateChip8Timers_def)

text \<open>
  C6, amended: a call of \<open>updateChip8Timers\<close> decrements the delay timer if it is above
  0 and the sound timer if it is above 0, and changes nothing else but the sound flag,
  which it raises exactly when the sound timer is 1 before the decrement. After \<open>N\<close>
  calls a timer that started at \<open>V\<close> holds \<open>V - N\<close>, and 0 as soon as \<open>V \<le> N\<close>, never
  less. Among the first \<open>N\<close> calls, the ones that raise the sound flag (calls are counted
  from 0, and the flag is taken down before the call to see whether the call raises it)
  are exactly call \<open>V - 1\<close> when \<open>1 \<le> V \<le> N\<close>, which is the call where the sound timer
  goes from 1 to 0, and none when the sound timer starts at 0.
\<close>

theorem timers_tick:
  "updateChip8Timers c =
     c\<lparr>delayTimer := (if delayTimer c > 0 then delayTimer c - 1 else delayTimer c),
       soundTimer := (if soundTimer c > 0 then soundTimer c - 1 else soundTimer c),
       soundFlag := (soundFlag c \<or> soundTimer c = 1)\<rparr> \<and>
   unat (delayTimer (ticks N c)) = unat (delayTimer c) - N \<and>
   unat (soundTimer (ticks N c)) = unat (soundTimer c) - N \<and>
   {k. k < N \<and> soundFlag (updateChip8Timers ((ticks k c)\<lparr>soundFlag := False\<rparr>))} =
     (if 1 \<le> unat (soundTimer c) \<and> unat (soundTimer c) \<le> N
      then {unat (soundTimer c) - 1} else {})"
proof -
  have "{k. k < N \<and> soundFlag (updateChip8Timers ((ticks k c)\<lparr>soundFlag := False\<rparr>))} =
        {k. k < N \<and> unat (soundTimer c) = Suc k}"
    by (simp add: tick_raises sound_is_one)
  also have "\<dots> = (if 1 \<le> unat (soundTimer c) \<and> unat (soundTimer c) \<le> N
      then {unat (soundTimer c) - 1} else {})"
    by auto
  finally show ?thesis
    using tick_fields [of c] ticks_delayTimer [of N c] ticks_soundTimer [of N c]
    by blast
qed

theorem timers_tick_witness:
  "unat (delayTimer (ticks 5 (blank\<lparr>delayTimer := 2, soundTimer := 3\<rparr>))) = 0 \<and>
   unat (soundTimer (ticks 5 (blank\<lparr>delayTimer := 2, soundTimer := 3\<rparr>))) = 0 \<and>
   {k. k < 5 \<and> soundFlag (updateChip8Timers
       ((ticks k (blank\<lparr>delayTimer := 2, soundTimer := 3\<rparr>))\<lparr>soundFlag := False\<rparr>))} = {2}"
  using timers_tick [of "blank\<lparr>delayTimer := 2, soundTimer := 3\<rparr>" 5]
  by simp

section \<open>Claims about emulateChip8Cycle\<close>

text \<open>
  C1 (8XY4 sets the flag to 1 when the sum of the two registers exceeds 255, and the
  register to the sum modulo 256): the code does not. With \<open>registers[0] = 0xFF\<close>,
  \<open>registers[1] = 0x01\<close> and the word 0x8014, the cycle leaves \<open>registers[0] = 0x00\<close>
  and the carry register at 0: the test \<open>registers[Y] > 0xFF - registers[X]\<close> runs after
  the addition, on the sum that has already wrapped.
\<close>

theorem add_carry_not_raised:
  "emulateChip8Cycle 0
     (machine [0x80, 0x14]\<lparr>registers := 0xFF # 0x01 # replicate 13 0\<rparr>) =
   Inr (machine [0x80, 0x14]
     \<lparr>opcode := 0x8014, registers := 0x00 # 0x01 # replicate 13 0,
      carryRegister := 0, programCounter := 0x202\<rparr>)"
  by (simp add: machine_2 eval_simps exec_8_def)

text \<open>
  C2 (BNNN sets the program counter to NNN plus register 0): the code does not. With
  \<open>registers[0] = 1\<close> and the word 0xB001 the program counter becomes 0x1000, which is
  \<open>0xB001 & (0x0FFF + 1)\<close>, and not \<open>0x001 + 1\<close>.
\<close>

theorem jump_offset_masked:
  "emulateChip8Cycle 0 (machine [0xB0, 0x01]\<lparr>registers := 0x01 # replicate 14 0\<rparr>) =
   Inr (machine [0xB0, 0x01]
     \<lparr>opcode := 0xB001, registers := 0x01 # replicate 14 0, programCounter := 0x1000\<rparr>)"
  by (simp add: machine_2 eval_simps)

text \<open>
  C3 (FX0A with a key pressed stores the highest pressed key and advances the program
  counter by exactly 2, however many keys are pressed): the code adds 2 for every pressed
  key. With the keys 0 and 1 pressed and the word 0xF00A at 0x200, \<open>registers[0]\<close>
  becomes 1 and the program counter 0x204.
\<close>

theorem wait_key_two_keys:
  "emulateChip8Cycle 0
     (machine [0xF0, 0x0A]\<lparr>keys := (replicate 16 False)[0 := True, 1 := True]\<rparr>) =
   Inr (machine [0xF0, 0x0A]
     \<lparr>opcode := 0xF00A, keys := (replicate 16 False)[0 := True, 1 := True],
      registers := (replicate 15 0)[0 := 1], programCounter := 0x204\<rparr>)"
  by (simp add: machine_2 eval_simps exec_F_def NUM_OF_KEYS_def upt_0_16 Let_def)

text \<open>
  C4 (a sprite pixel whose target lies outside the 64 by 32 grid is skipped, neither
  wrapped nor written to any cell): the code writes it when the target column is 64.
  With \<open>registers[0] = 57\<close>, \<open>registers[1] = 0\<close>, the sprite row 0x01 at the index
  register and the word 0xD011, column 7 of the row targets (64, 0); the test
  \<open>xpos + column > SCREEN_WIDTH\<close> lets it pass and the cycle sets \<open>pixels[64]\<close>, the cell
  (0, 1) of the grid.
\<close>

theorem draw_column_64_written:
  "emulateChip8Cycle 0
     (machine [0xD0, 0x11, 0x01]
        \<lparr>registers := (replicate 15 0)[0 := 57], indexRegister := 0x202\<rparr>) =
   Inr (machine [0xD0, 0x11, 0x01]
     \<lparr>opcode := 0xD011, registers := (replicate 15 0)[0 := 57], indexRegister := 0x202,
      carryRegister := 0, pixels := (replicate 2048 0)[64 := 1], drawFlag := True,
      programCounter := 0x202\<rparr>)"
  by (simp add: machine_3 eval_simps exec_D_def SCREEN_WIDTH_def SCREEN_HEIGHT_def
      upt_0_8 Let_def)

text \<open>
  C5 (for any X from 0 to 15, FX55 and then FX65 into a zeroed register file bring back
  the registers 0 to X): the code does not for X = 15. The loops of FX55 and FX65 run
  \<open>r\<close> up to the 4-bit field X, and the register array has \<open>NUM_OF_REGISTERS\<close> = 15
  entries: with the word 0xFF55 the cycle reads \<open>registers[15]\<close>, and with 0xFF65 it
  writes \<open>registers[15]\<close>, outside the array.
\<close>

theorem store_load_register_15:
  "emulateChip8Cycle 0 (machine [0xFF, 0x55]\<lparr>indexRegister := 0x300\<rparr>) = Inl OutOfBounds \<and>
   emulateChip8Cycle 0 (machine [0xFF, 0x65]\<lparr>indexRegister := 0x300\<rparr>) = Inl OutOfBounds"
  by (simp add: machine_2 eval_simps exec_F_def Let_def
      store_registers_fault [of 15] load_registers_fault [of 15])

text \<open>
  C7, as the claim states it, fails on its own example: the word 0x5011 is executed as
  5XY0 (the last nibble of family 5 is never looked at), the cycle returns and the
  program counter has moved by 4.
\<close>

theorem skip_trailing_nibble_counterexample:
  "emulateChip8Cycle 0 (machine [0x50, 0x11]) =
   Inr (machine [0x50, 0x11]\<lparr>opcode := 0x5011, programCounter := 0x204\<rparr>)"
  by (simp add: machine_2 eval_simps)

text \<open>
  C7, amended: for every instruction word of the families 0, 8 and F that matches no
  opcode of its family, the cycle ends in the outcome "unknown opcode", which carries the
  word; no machine state comes out of such a cycle.
\<close>

theorem unknown_opcode:
  assumes "fetch c = Inr w"
    and "(w AND 0xF000 = 0x0000 \<and> w AND 0x0FFF \<noteq> 0x00E0 \<and> w AND 0x0FFF \<noteq> 0x00EE) \<or>
         (w AND 0xF000 = 0x8000 \<and> w AND 0x000F \<notin> {0x0, 0x1, 0x2, 0x3, 0x4, 0x5, 0x6, 0x7, 0xE}) \<or>
         (w AND 0xF000 = 0xF000 \<and>
          w AND 0xFF \<notin> {0x07, 0x0A, 0x15, 0x18, 0x1E, 0x29, 0x33, 0x55, 0x65})"
  shows "emulateChip8Cycle rnd c = Inl (UnknownOpcode w)"
proof -
  note run = emulate_fetched [OF assms(1)]
  from assms(2) consider
    (zero) "w AND 0xF000 = 0x0000" "w AND 0x0FFF \<noteq> 0x00E0" "w AND 0x0FFF \<noteq> 0x00EE"
  | (eight) "w AND 0xF000 = 0x8000" "w AND 0x000F \<notin> {0x0, 0x1, 0x2, 0x3, 0x4, 0x5, 0x6, 0x7, 0xE}"
  | (eff) "w AND 0xF000 = 0xF000"
      "w AND 0xFF \<notin> {0x07, 0x0A, 0x15, 0x18, 0x1E, 0x29, 0x33, 0x55, 0x65}"
    by blast
  then show ?thesis
  proof cases
    case zero
    then show ?thesis by (simp add: run execute_def exec_0_def Let_def)
  next
    case eight
    then show ?thesis by (simp add: run execute_def exec_8_def Let_def)
  next
    case eff
    then show ?thesis by (simp add: run execute_def exec_F_def Let_def)
  qed
qed

theorem unknown_opcode_witness:
  "emulateChip8Cycle 0 (machine [0x80, 0x08]) = Inl (UnknownOpcode 0x8008) \<and>
   emulateChip8Cycle 0 (machine [0x00, 0x00]) = Inl (UnknownOpcode 0x0000) \<and>
   emulateChip8Cycle 0 (machine [0xF0, 0xFF]) = Inl (UnknownOpcode 0xF0FF)"
  using unknown_opcode [of "machine [0x80, 0x08]" "0x8008" 0]
    unknown_opcode [of "machine [0x00, 0x00]" "0x0000" 0]
    unknown_opcode [of "machine [0xF0, 0xFF]" "0xF0FF" 0]
  by (simp add: fetch_machine_2)

text \<open>
  C9 (3XNN, 4XNN, 5XY0 and 9XY0 move the program counter by exactly 4 when the condition
  of the skip holds and by exactly 2 otherwise, and change nothing else): the code does
  not when X or Y is 0xF. The register array has 15 entries, and the words 0x3F00,
  0x4F00, 0x50F0 and 0x90F0 make the cycle read \<open>registers[15]\<close>, outside the array, to
  decide the skip.
\<close>

theorem skip_register_15:
  "emulateChip8Cycle 0 (machine [0x3F, 0x00]) = Inl OutOfBounds \<and>
   emulateChip8Cycle 0 (machine [0x4F, 0x00]) = Inl OutOfBounds \<and>
   emulateChip8Cycle 0 (machine [0x50, 0xF0]) = Inl OutOfBounds \<and>
   emulateChip8Cycle 0 (machine [0x90, 0xF0]) = Inl OutOfBounds"
  by (simp add: machine_2 eval_simps)

end
